theory Spec2Isabelle
  imports Complex_Main "HOL-Library.AList" "HOL-Library.Sublist"
begin

section \<open>Values of the Python program\<close>

text \<open>
  The model follows \<^verbatim>\<open>train.py\<close>: the classes \<^verbatim>\<open>Sample\<close> and
  \<^verbatim>\<open>DataScaler\<close>, the function \<^verbatim>\<open>floatify\<close> and the function
  \<^verbatim>\<open>load_input_file\<close>. Objects are records, a method takes the object and
  returns what Python returns (and the updated object where the method assigns to
  \<^verbatim>\<open>self\<close>), every \<^verbatim>\<open>raise\<close> is a value of \<open>py_error\<close>.

  Numbers are not computed with anywhere in the program, they are only stored, copied and
  cast. A float64 number is a value of the type variable \<open>'v\<close>; a scalar of a record
  table, whose element type the file decides, is a value of the type variable \<open>'a\<close>,
  and the cast of such a scalar to float64 is a function \<open>to_float\<close> that the model takes
  as a parameter.
\<close>

datatype scalar_type = Float64 | Float32 | Int64 | Int32

text \<open>A numpy dtype: a scalar type, or a structured type with named scalar fields.\<close>

datatype dtype = Plain scalar_type | Struct "(string \<times> scalar_type) list"

text \<open>
  A Python string object is a \<^verbatim>\<open>str\<close> or a \<^verbatim>\<open>bytes\<close>. The two are never equal
  in Python 3, also where they spell the same text: \<^verbatim>\<open>b'eventweight' == 'eventweight'\<close>
  is false. A literal of the program is a \<^verbatim>\<open>str\<close>; the names that h5py reads from a
  string field of a table are \<^verbatim>\<open>bytes\<close>, and the program never decodes them.
\<close>

datatype py_str = Str string | Bytes string

datatype py_error =
    Exception dtype        \<comment> \<open>\<^verbatim>\<open>Exception\<close> of \<^verbatim>\<open>Sample\<close>; the message shows the dtype found\<close>
  | ValueError string      \<comment> \<open>the message\<close>
  | KeyError py_str        \<comment> \<open>the key that was asked for\<close>
  | AttributeError string  \<comment> \<open>the attribute that the object does not have\<close>
  | TypeError string
  | SystemExit             \<comment> \<open>\<^verbatim>\<open>sys.exit()\<close>\<close>

text \<open>
  A numpy array: its dtype, its shape and its items in C order. The buffer holds scalars;
  an item of a structured dtype with \<open>k\<close> fields takes \<open>k\<close> consecutive scalars, in
  field order, as it does in memory.
\<close>

record 'a ndarray =
  dtype :: dtype
  shape :: "nat list"
  buf :: "'a list"

section \<open>The numpy operations of floatify\<close>

text \<open>
  \<^verbatim>\<open>floatify\<close> is a chain of three numpy calls. They are library code; the
  definitions below follow what numpy does on the arrays the program gives them.
\<close>

fun scalar_size :: "scalar_type \<Rightarrow> nat" where
  "scalar_size Float64 = 8"
| "scalar_size Float32 = 4"
| "scalar_size Int64 = 8"
| "scalar_size Int32 = 4"

text \<open>Bytes of one item (a structured dtype built from a list of fields is packed).\<close>

fun itemsize :: "dtype \<Rightarrow> nat" where
  "itemsize (Plain t) = scalar_size t"
| "itemsize (Struct fs) = sum_list (map (\<lambda>f. scalar_size (snd f)) fs)"

text \<open>Scalars of one item in the buffer.\<close>

fun width :: "dtype \<Rightarrow> nat" where
  "width (Plain t) = 1"
| "width (Struct fs) = length fs"

fun names_of :: "dtype \<Rightarrow> string list" where
  "names_of (Plain t) = []"
| "names_of (Struct fs) = map fst fs"

text \<open>\<^verbatim>\<open>np.dtype(ftype)\<close> of a list of named fields: a field name may occur once.\<close>

definition np_dtype :: "(string \<times> scalar_type) list \<Rightarrow> py_error + dtype" where
  "np_dtype ftype =
     (if distinct (map fst ftype) then Inr (Struct ftype)
      else Inl (ValueError ''field occurs more than once''))"

text \<open>
  \<^verbatim>\<open>a.astype(ftype)\<close> for an \<^verbatim>\<open>ftype\<close> whose fields are all \<^verbatim>\<open>float\<close>, the
  only use in the program. A structured array is cast field by field, by position, and
  both types must have the same number of fields; a scalar of an unstructured array goes
  to every field. Shape is kept.
\<close>

definition astype ::
  "('a \<Rightarrow> 'v) \<Rightarrow> 'a ndarray \<Rightarrow> (string \<times> scalar_type) list \<Rightarrow> py_error + 'v ndarray"
where
  "astype to_float a ftype =
     (case np_dtype ftype of
        Inl e \<Rightarrow> Inl e
      | Inr t \<Rightarrow>
          (case dtype a of
             Plain _ \<Rightarrow>
               Inr \<lparr>dtype = t, shape = shape a,
                    buf = concat (map (\<lambda>x. replicate (length ftype) (to_float x)) (buf a))\<rparr>
           | Struct fs \<Rightarrow>
               if length fs = length ftype
               then Inr \<lparr>dtype = t, shape = shape a, buf = map to_float (buf a)\<rparr>
               else Inl (TypeError ''Cannot cast array data according to the rule unsafe'')))"

text \<open>
  \<^verbatim>\<open>a.view(float)\<close>: the same memory read as float64. Where the item size
  changes, the last axis is resized and a 0-d array is refused. The buffer is untouched,
  which is the new content when every scalar of \<open>a\<close> is a float64, as \<^verbatim>\<open>astype\<close>
  has made it.
\<close>

definition view_float :: "'v ndarray \<Rightarrow> py_error + 'v ndarray" where
  "view_float a =
     (let old = itemsize (dtype a); new = scalar_size Float64
      in if new = old then Inr (a\<lparr>dtype := Plain Float64\<rparr>)
         else if shape a = []
         then Inl (ValueError ''Changing the dtype of a 0d array is only supported if the itemsize is unchanged'')
         else if new < old
         then (if old mod new = 0
               then Inr (a\<lparr>dtype := Plain Float64,
                           shape := butlast (shape a) @ [last (shape a) * (old div new)]\<rparr>)
               else Inl (ValueError ''When changing to a smaller dtype, its size must be a divisor of the size of original dtype''))
         else (if (last (shape a) * old) mod new = 0
               then Inr (a\<lparr>dtype := Plain Float64,
                           shape := butlast (shape a) @ [(last (shape a) * old) div new]\<rparr>)
               else Inl (ValueError ''When changing to a larger dtype, its size must be a divisor of the total size in bytes of the last axis of the array.'')))"

text \<open>
  \<^verbatim>\<open>a.reshape(newshape)\<close>, where one dimension may be \<^verbatim>\<open>-1\<close>: numpy infers it
  as the array's size divided by the product of the other dimensions, and refuses when
  that product is zero or does not divide the size.
\<close>

definition reshape :: "'v ndarray \<Rightarrow> int list \<Rightarrow> py_error + 'v ndarray" where
  "reshape a newshape =
     (let total = prod_list (shape a);
          known = prod_list (map nat (filter (\<lambda>d. 0 \<le> d) newshape));
          unknown = length (filter (\<lambda>d. d < 0) newshape)
      in if 1 < unknown then Inl (ValueError ''can only specify one unknown dimension'')
         else if unknown = 1
         then (if known = 0 then Inl (ValueError ''cannot reshape array'')
               else if total mod known = 0
               then Inr (a\<lparr>shape := map (\<lambda>d. if d < 0 then total div known else nat d) newshape\<rparr>)
               else Inl (ValueError ''cannot reshape array''))
         else if known = total then Inr (a\<lparr>shape := map nat newshape\<rparr>)
         else Inl (ValueError ''cannot reshape array''))"

section \<open>floatify\<close>

definition floatify :: "('a \<Rightarrow> 'v) \<Rightarrow> 'a ndarray \<Rightarrow> string list \<Rightarrow> py_error + 'v ndarray" where
  "floatify to_float input_array feature_list =
     (let ftype = map (\<lambda>name. (name, Float64)) feature_list
      in case astype to_float input_array ftype of
           Inl e \<Rightarrow> Inl e
         | Inr a \<Rightarrow>
             (case view_float a of
                Inl e \<Rightarrow> Inl e
              | Inr v \<Rightarrow> reshape v (map int (shape input_array) @ [- 1])))"

text \<open>Reading an array: item \<open>i\<close> of the buffer, the column of a named field of a
  structured array (\<^verbatim>\<open>a[name]\<close>), column \<open>j\<close> of a matrix (\<^verbatim>\<open>m[:, j]\<close>).\<close>

definition item_at :: "'a ndarray \<Rightarrow> nat \<Rightarrow> 'a list" where
  "item_at a i = take (width (dtype a)) (drop (i * width (dtype a)) (buf a))"

fun field_index :: "string list \<Rightarrow> string \<Rightarrow> nat" where
  "field_index [] n = 0"
| "field_index (f # fs) n = (if f = n then 0 else Suc (field_index fs n))"

definition field :: "'a ndarray \<Rightarrow> string \<Rightarrow> 'a list" where
  "field a n =
     map (\<lambda>i. item_at a i ! field_index (names_of (dtype a)) n) [0..<prod_list (shape a)]"

definition column :: "'v ndarray \<Rightarrow> nat \<Rightarrow> 'v list" where
  "column m j = map (\<lambda>i. buf m ! (i * (shape m ! 1) + j)) [0..<shape m ! 0]"

section \<open>The class Sample\<close>

record 'x Sample =
  self_name :: string
  self_class_label :: int
  self_input_data :: "'x ndarray"

text \<open>\<^verbatim>\<open>Sample.__init__\<close>. \<^verbatim>\<open>input_data\<close> defaults to \<^verbatim>\<open>None\<close>, which has no
  \<^verbatim>\<open>dtype\<close>.\<close>

definition Sample_init :: "string \<Rightarrow> int \<Rightarrow> 'x ndarray option \<Rightarrow> py_error + 'x Sample" where
  "Sample_init name class_label input_data =
     (case input_data of
        None \<Rightarrow> Inl (AttributeError ''dtype'')
      | Some a \<Rightarrow>
          if dtype a \<noteq> Plain Float64 then Inl (Exception (dtype a))
          else if class_label < 0
          then Inl (ValueError (''ERROR Sample (='' @ name @ '')class label is not set (<0)''))
          else Inr \<lparr>self_name = name, self_class_label = class_label, self_input_data = a\<rparr>)"

definition name :: "'x Sample \<Rightarrow> string" where
  "name self = self_name self"

definition class_label :: "'x Sample \<Rightarrow> int" where
  "class_label self = self_class_label self"

definition data :: "'x Sample \<Rightarrow> 'x ndarray" where
  "data self = self_input_data self"

text \<open>
  The methods of a constructed \<^verbatim>\<open>Sample\<close>, as calls that return Python's value and
  the object after the call.
\<close>

datatype sample_method = Call_name | Call_class_label | Call_data

datatype 'x py_value = Py_str string | Py_int int | Py_array "'x ndarray"

fun call :: "'x Sample \<Rightarrow> sample_method \<Rightarrow> 'x py_value \<times> 'x Sample" where
  "call self Call_name = (Py_str (name self), self)"
| "call self Call_class_label = (Py_int (class_label self), self)"
| "call self Call_data = (Py_array (data self), self)"

fun calls :: "'x Sample \<Rightarrow> sample_method list \<Rightarrow> 'x Sample" where
  "calls self [] = self"
| "calls self (m # ms) = calls (snd (call self m)) ms"

section \<open>The class DataScaler\<close>

text \<open>One record of the scaling table \<^verbatim>\<open>scaling/scaling_data\<close>, as the program gets
  it: the fields \<^verbatim>\<open>name\<close>, \<^verbatim>\<open>mean\<close>, \<^verbatim>\<open>scale\<close>, \<^verbatim>\<open>var\<close>. The name is the
  string object that the read hands over. The three numbers are float64 in the file
  layout the program reads.\<close>

record 'v scaling_row =
  row_name :: py_str
  row_mean :: 'v
  row_scale :: 'v
  row_var :: 'v

text \<open>The dictionary \<^verbatim>\<open>{'mean' : mean, 'scale' : scale, 'var' : var}\<close>.\<close>

record 'v params =
  p_mean :: 'v
  p_scale :: 'v
  p_var :: 'v

text \<open>
  \<^verbatim>\<open>self._mean\<close>, \<^verbatim>\<open>self._scale\<close> and \<^verbatim>\<open>self._var\<close> are Python lists while
  \<^verbatim>\<open>load\<close> fills them and numpy arrays once it has finished. Only a list has
  \<^verbatim>\<open>append\<close>.
\<close>

datatype 'v vec = PyList "'v list" | NdArray "'v list"

fun items :: "'v vec \<Rightarrow> 'v list" where
  "items (PyList xs) = xs"
| "items (NdArray xs) = xs"

fun append_vec :: "'v vec \<Rightarrow> 'v \<Rightarrow> py_error + 'v vec" where
  "append_vec (PyList xs) x = Inr (PyList (xs @ [x]))"
| "append_vec (NdArray xs) x = Inl (AttributeError ''append'')"

text \<open>\<^verbatim>\<open>np.array(v, dtype = np.float64)\<close> on float64 values: a fixed array of the same
  values, from a list or from an array.\<close>

fun np_array :: "'v vec \<Rightarrow> 'v vec" where
  "np_array (PyList xs) = NdArray xs"
| "np_array (NdArray xs) = NdArray xs"

text \<open>
  The object. \<^verbatim>\<open>self._scaling_dict\<close> is a Python dict: an association list in
  insertion order, where storing under a key that is there replaces the value in place
  (\<open>AList.update\<close>), looked up with \<open>map_of\<close>; \<^verbatim>\<open>len\<close> is \<open>length\<close>.
\<close>

record 'v DataScaler =
  self_raw_feature_list :: "py_str list"
  self_feature_list :: "py_str list"
  self_scaling_dict :: "(py_str \<times> 'v params) list"
  self_mean :: "'v vec"
  self_scale :: "'v vec"
  self_var :: "'v vec"

definition row_params :: "'v scaling_row \<Rightarrow> 'v params" where
  "row_params x = \<lparr>p_mean = row_mean x, p_scale = row_scale x, p_var = row_var x\<rparr>"

text \<open>
  The loop \<^verbatim>\<open>for x in scaling_dataset\<close> of \<^verbatim>\<open>load\<close>. An exception leaves the
  object as the statements before it have made it, so the object comes back in both
  cases, with the exception if there is one.
\<close>

fun load_rows ::
  "'v DataScaler \<Rightarrow> 'v scaling_row list \<Rightarrow> py_str list \<Rightarrow> 'v DataScaler \<times> py_error option"
where
  "load_rows self [] ignore_features = (self, None)"
| "load_rows self (x # xs) ignore_features =
     (if row_name x \<in> set ignore_features then load_rows self xs ignore_features
      else
        let self1 = self\<lparr>self_scaling_dict :=
                      AList.update (row_name x) (row_params x) (self_scaling_dict self)\<rparr>
        in case append_vec (self_mean self1) (row_mean x) of
             Inl e \<Rightarrow> (self1, Some e)
           | Inr m \<Rightarrow>
               let self2 = self1\<lparr>self_mean := m\<rparr>
               in case append_vec (self_scale self2) (row_scale x) of
                    Inl e \<Rightarrow> (self2, Some e)
                  | Inr s \<Rightarrow>
                      let self3 = self2\<lparr>self_scale := s\<rparr>
                      in case append_vec (self_var self3) (row_var x) of
                           Inl e \<Rightarrow> (self3, Some e)
                         | Inr v \<Rightarrow> load_rows (self3\<lparr>self_var := v\<rparr>) xs ignore_features)"

definition load ::
  "'v DataScaler \<Rightarrow> 'v scaling_row list \<Rightarrow> py_str list \<Rightarrow> 'v DataScaler \<times> py_error option"
where
  "load self scaling_dataset ignore_features =
     (let self1 = self\<lparr>self_raw_feature_list := map row_name scaling_dataset\<rparr>;
          self2 = self1\<lparr>self_feature_list :=
                    filter (\<lambda>x. x \<notin> set ignore_features) (self_raw_feature_list self1)\<rparr>
      in case load_rows self2 scaling_dataset ignore_features of
           (self3, Some e) \<Rightarrow> (self3, Some e)
         | (self3, None) \<Rightarrow>
             (self3\<lparr>self_mean := np_array (self_mean self3),
                    self_scale := np_array (self_scale self3),
                    self_var := np_array (self_var self3)\<rparr>, None))"

text \<open>\<^verbatim>\<open>DataScaler.__init__\<close>: empty fields, then \<^verbatim>\<open>load\<close>.\<close>

definition DataScaler_init ::
  "'v scaling_row list \<Rightarrow> py_str list \<Rightarrow> 'v DataScaler \<times> py_error option"
where
  "DataScaler_init scaling_dataset ignore_features =
     load \<lparr>self_raw_feature_list = [], self_feature_list = [], self_scaling_dict = [],
           self_mean = PyList [], self_scale = PyList [], self_var = PyList []\<rparr>
          scaling_dataset ignore_features"

definition raw_feature_list :: "'v DataScaler \<Rightarrow> py_str list" where
  "raw_feature_list self = self_raw_feature_list self"

definition feature_list :: "'v DataScaler \<Rightarrow> py_str list" where
  "feature_list self = self_feature_list self"

definition scaling_dict :: "'v DataScaler \<Rightarrow> (py_str \<times> 'v params) list" where
  "scaling_dict self = self_scaling_dict self"

definition get_params :: "'v DataScaler \<Rightarrow> py_str \<Rightarrow> py_error + 'v params" where
  "get_params self feature =
     (case map_of (self_scaling_dict self) feature of
        Some p \<Rightarrow> Inr p
      | None \<Rightarrow> Inl (KeyError feature))"

definition mean :: "'v DataScaler \<Rightarrow> 'v vec" where
  "mean self = self_mean self"

definition scale :: "'v DataScaler \<Rightarrow> 'v vec" where
  "scale self = self_scale self"

definition var :: "'v DataScaler \<Rightarrow> 'v vec" where
  "var self = self_var self"

section \<open>The input file\<close>







section \<open>load_input_file\<close>









section \<open>Auxiliary notions for the proofs\<close>

text \<open>The records that \<^verbatim>\<open>load\<close> does not skip, and the dictionary after storing a
  list of records one after the other.\<close>

definition kept :: "py_str list \<Rightarrow> 'v scaling_row list \<Rightarrow> 'v scaling_row list" where
  "kept ignore_features rows = filter (\<lambda>x. row_name x \<notin> set ignore_features) rows"

definition store_rows ::
  "(py_str \<times> 'v params) list \<Rightarrow> 'v scaling_row list \<Rightarrow> (py_str \<times> 'v params) list"
where
  "store_rows d rows = foldl (\<lambda>d x. AList.update (row_name x) (row_params x) d) d rows"

section \<open>The example of the specification\<close>

text \<open>
  The scaling table of the end-to-end example, and a container with this table and one
  sample group \<^verbatim>\<open>signal\<close> with \<^verbatim>\<open>training_label = 1\<close>, whose feature table has the
  fields \<^verbatim>\<open>pt\<close>, \<^verbatim>\<open>eta\<close>, \<^verbatim>\<open>eventweight\<close> of a scalar type \<open>t\<close> and three
  events, given by the buffer. The table is what the read of the file hands over, and
  \<open>as_name\<close> says how it hands over a name of the file: as \<^verbatim>\<open>bytes\<close> (\<open>Bytes\<close>),
  which is h5py's read under Python 3, or as \<^verbatim>\<open>str\<close> (\<open>Str\<close>), as under Python 2,
  where a byte string is a \<^verbatim>\<open>str\<close>.
\<close>

definition example_scaling_data :: "(string \<Rightarrow> py_str) \<Rightarrow> real scaling_row list" where
  "example_scaling_data as_name =
     [\<lparr>row_name = as_name ''pt'', row_mean = 50, row_scale = 10, row_var = 100\<rparr>,
      \<lparr>row_name = as_name ''eta'', row_mean = 0, row_scale = 1, row_var = 1\<rparr>,
      \<lparr>row_name = as_name ''eventweight'', row_mean = 1, row_scale = 1, row_var = 1\<rparr>]"



section \<open>The catalog that the constructor builds\<close>

lemma load_rows_lists:
  "self_mean self = PyList ms \<Longrightarrow> self_scale self = PyList ss \<Longrightarrow> self_var self = PyList vs \<Longrightarrow>
   load_rows self ds ign =
     (self\<lparr>self_scaling_dict := store_rows (self_scaling_dict self) (kept ign ds),
           self_mean := PyList (ms @ map row_mean (kept ign ds)),
           self_scale := PyList (ss @ map row_scale (kept ign ds)),
           self_var := PyList (vs @ map row_var (kept ign ds))\<rparr>, None)"
proof (induction ds arbitrary: self ms ss vs)
  case Nil
  then show ?case by (simp add: store_rows_def kept_def)
next
  case (Cons x xs)
  show ?case
  proof (cases "row_name x \<in> set ign")
    case True
    then show ?thesis using Cons by (simp add: kept_def)
  next
    case False
    then show ?thesis using Cons.prems
      by (simp add: Cons.IH [where ms = "ms @ [row_mean x]" and ss = "ss @ [row_scale x]" and vs = "vs @ [row_var x]"] 
          kept_def store_rows_def Let_def)
  qed
qed

lemma DataScaler_init_eq:
  "DataScaler_init ds ign =
     (\<lparr>self_raw_feature_list = map row_name ds,
       self_feature_list = filter (\<lambda>x. x \<notin> set ign) (map row_name ds),
       self_scaling_dict = store_rows [] (kept ign ds),
       self_mean = NdArray (map row_mean (kept ign ds)),
       self_scale = NdArray (map row_scale (kept ign ds)),
       self_var = NdArray (map row_var (kept ign ds))\<rparr>, None)"
  unfolding DataScaler_init_def load_def Let_def
  by (subst load_rows_lists [where ms = "[]" and ss = "[]" and vs = "[]"]) simp_all

lemma feature_list_kept:
  "filter (\<lambda>x. x \<notin> set ign) (map row_name ds) = map row_name (kept ign ds)"
  by (simp add: kept_def filter_map comp_def)

lemma update_fresh: "k \<notin> fst ` set al \<Longrightarrow> AList.update k v al = al @ [(k, v)]"
  by (induction al) auto

lemma store_rows_distinct:
  "distinct (map row_name rs) \<Longrightarrow> set (map row_name rs) \<inter> fst ` set d = {} \<Longrightarrow>
   store_rows d rs = d @ map (\<lambda>x. (row_name x, row_params x)) rs"
proof (induction rs arbitrary: d)
  case Nil
  then show ?case by (simp add: store_rows_def)
next
  case (Cons x xs)
  have "AList.update (row_name x) (row_params x) d = d @ [(row_name x, row_params x)]"
    using Cons.prems by (intro update_fresh) auto
  moreover have "store_rows (d @ [(row_name x, row_params x)]) xs = (d @ [(row_name x, row_params x)]) @ map (\<lambda>x. (row_name x, row_params x)) xs"
    using Cons.prems by (intro Cons.IH) auto
  ultimately show ?case by (simp add: store_rows_def)
qed

lemma distinct_kept: "distinct (map row_name ds) \<Longrightarrow> distinct (map row_name (kept ign ds))"
  by (simp add: kept_def distinct_map_filter)

lemma map_of_row_nth:
  "distinct (map row_name rs) \<Longrightarrow> i < length rs \<Longrightarrow>
   map_of (map (\<lambda>x. (row_name x, row_params x)) rs) (row_name (rs ! i)) = Some (row_params (rs ! i))"
proof -
  assume d: "distinct (map row_name rs)" and i: "i < length rs"
  have "distinct (map fst (map (\<lambda>x. (row_name x, row_params x)) rs))"
    using d by (simp add: comp_def)
  moreover have "(row_name (rs ! i), row_params (rs ! i)) \<in> set (map (\<lambda>x. (row_name x, row_params x)) rs)"
    using i by auto
  ultimately show ?thesis by (rule map_of_is_SomeI)
qed

lemma map_of_store_rows_snoc:
  "map_of (store_rows d (rs @ [x])) = (map_of (store_rows d rs))(row_name x \<mapsto> row_params x)"
  by (simp add: store_rows_def AList.update_conv')

lemma map_of_store_rows:
  "map_of (store_rows [] rs) f =
     (if f \<in> row_name ` set rs then Some (row_params (last (filter (\<lambda>x. row_name x = f) rs))) else None)"
proof (induction rs rule: rev_induct)
  case Nil
  then show ?case by (simp add: store_rows_def)
next
  case (snoc x xs)
  then show ?case by (auto simp: map_of_store_rows_snoc)
qed

lemma filter_name_kept:
  "f \<notin> set ign \<Longrightarrow> filter (\<lambda>x. row_name x = f) (kept ign ds) = filter (\<lambda>x. row_name x = f) ds"
  by (induction ds) (auto simp: kept_def)

lemma names_kept: "row_name ` set (kept ign ds) = row_name ` set ds - set ign"
  by (auto simp: kept_def)

lemma example_catalog:
  "DataScaler_init (example_scaling_data Bytes) [Bytes ''eventweight''] =
     (\<lparr>self_raw_feature_list = [Bytes ''pt'', Bytes ''eta'', Bytes ''eventweight''],
       self_feature_list = [Bytes ''pt'', Bytes ''eta''],
       self_scaling_dict = [(Bytes ''pt'', \<lparr>p_mean = 50, p_scale = 10, p_var = 100\<rparr>),
                            (Bytes ''eta'', \<lparr>p_mean = 0, p_scale = 1, p_var = 1\<rparr>)],
       self_mean = NdArray [50, 0], self_scale = NdArray [10, 1], self_var = NdArray [100, 1]\<rparr>,
      None)"
  by (simp add: DataScaler_init_def load_def row_params_def example_scaling_data_def)



text \<open>
  Claim C1. For a scaling table without duplicate names and any exclusion set, the
  constructor returns normally, the vectors \<^verbatim>\<open>mean\<close>, \<^verbatim>\<open>scale\<close>, \<^verbatim>\<open>var\<close>, the
  list \<^verbatim>\<open>feature_list\<close> and the dictionary \<^verbatim>\<open>scaling_dict\<close> have the same length,
  and for every index \<open>i\<close> the dictionary's entry for \<^verbatim>\<open>feature_list[i]\<close> is the record
  of \<^verbatim>\<open>mean[i]\<close>, \<^verbatim>\<open>scale[i]\<close>, \<^verbatim>\<open>var[i]\<close>.
\<close>
theorem catalog_aligned:
  assumes "distinct (map row_name ds)"
  shows "snd (DataScaler_init ds ign) = None \<and>
    (let c = fst (DataScaler_init ds ign) in
       length (items (mean c)) = length (feature_list c) \<and>
       length (items (scale c)) = length (feature_list c) \<and>
       length (items (var c)) = length (feature_list c) \<and>
       length (scaling_dict c) = length (feature_list c) \<and>
       (\<forall>i < length (feature_list c).
          map_of (scaling_dict c) (feature_list c ! i) =
            Some \<lparr>p_mean = items (mean c) ! i, p_scale = items (scale c) ! i, p_var = items (var c) ! i\<rparr>))"
proof -
  have d: "distinct (map row_name (kept ign ds))"
    using assms by (rule distinct_kept)
  have s: "store_rows [] (kept ign ds) = map (\<lambda>x. (row_name x, row_params x)) (kept ign ds)"
    using store_rows_distinct [OF d, of "[]"] by simp
  show ?thesis
    unfolding DataScaler_init_eq Let_def
    by (simp add: mean_def scale_def var_def feature_list_def scaling_dict_def s feature_list_kept
        map_of_row_nth [OF d, unfolded row_params_def] row_params_def)
qed


theorem catalog_aligned_witness:
  "distinct (map row_name (example_scaling_data Bytes)) \<and>
   (let c = fst (DataScaler_init (example_scaling_data Bytes) [Bytes ''eventweight'']) in
      length (items (mean c)) = 2 \<and> length (feature_list c) = 2 \<and> length (scaling_dict c) = 2 \<and>
      map_of (scaling_dict c) (feature_list c ! 1) =
        Some \<lparr>p_mean = items (mean c) ! 1, p_scale = items (scale c) ! 1, p_var = items (var c) ! 1\<rparr>)"
proof -
  have d: "distinct (map row_name (example_scaling_data Bytes))"
    by (simp add: example_scaling_data_def)
  show ?thesis
    using d catalog_aligned [OF d, of "[Bytes ''eventweight'']"]
    by (simp add: example_catalog Let_def feature_list_def mean_def scale_def var_def scaling_dict_def)
qed

text \<open>
  Claim C2. A name of the source that is in the exclusion set is not in
  \<^verbatim>\<open>feature_list\<close>, has no entry in \<^verbatim>\<open>scaling_dict\<close>, and the three vectors hold
  the values of the records with a name that is not excluded, in source order, so no value
  of a record with this name; the name is still in \<^verbatim>\<open>raw_feature_list\<close>, and
  \<^verbatim>\<open>feature_list\<close> is \<^verbatim>\<open>raw_feature_list\<close> without the excluded names, in the same
  order.
\<close>
theorem exclusion_removes:
  assumes "x \<in> set (map row_name ds)" and "x \<in> set ign"
  shows "let c = fst (DataScaler_init ds ign) in
       x \<notin> set (feature_list c) \<and>
       map_of (scaling_dict c) x = None \<and>
       items (mean c) = map row_mean (filter (\<lambda>r. row_name r \<notin> set ign) ds) \<and>
       items (scale c) = map row_scale (filter (\<lambda>r. row_name r \<notin> set ign) ds) \<and>
       items (var c) = map row_var (filter (\<lambda>r. row_name r \<notin> set ign) ds) \<and>
       feature_list c = map row_name (filter (\<lambda>r. row_name r \<notin> set ign) ds) \<and>
       x \<in> set (raw_feature_list c) \<and>
       feature_list c = filter (\<lambda>n. n \<notin> set ign) (raw_feature_list c) \<and>
       subseq (feature_list c) (raw_feature_list c)"
proof -
  have "x \<notin> row_name ` set (kept ign ds)"
    using assms(2) by (simp add: names_kept)
  then have "map_of (store_rows [] (kept ign ds)) x = None"
    by (simp add: map_of_store_rows)
  moreover have "subseq (filter (\<lambda>n. n \<notin> set ign) (map row_name ds)) (map row_name ds)"
    by simp
  moreover have "x \<notin> set (filter (\<lambda>n. n \<notin> set ign) (map row_name ds))"
    using assms(2) by simp
  ultimately show ?thesis
    using assms(1) unfolding DataScaler_init_eq Let_def
    by (simp add: mean_def scale_def var_def feature_list_def scaling_dict_def raw_feature_list_def
        feature_list_kept kept_def)
qed

theorem exclusion_removes_witness:
  "Bytes ''eventweight'' \<in> set (map row_name (example_scaling_data Bytes)) \<and>
   Bytes ''eventweight'' \<in> set [Bytes ''eventweight''] \<and>
   (let c = fst (DataScaler_init (example_scaling_data Bytes) [Bytes ''eventweight'']) in
      Bytes ''eventweight'' \<notin> set (feature_list c) \<and> map_of (scaling_dict c) (Bytes ''eventweight'') = None \<and>
      items (mean c) = [50, 0] \<and> Bytes ''eventweight'' \<in> set (raw_feature_list c) \<and>
      feature_list c = [Bytes ''pt'', Bytes ''eta''])"
proof -
  have h: "Bytes ''eventweight'' \<in> set (map row_name (example_scaling_data Bytes))"
    by (simp add: example_scaling_data_def)
  have i: "Bytes ''eventweight'' \<in> set [Bytes ''eventweight'']"
    by simp
  show ?thesis
    using h exclusion_removes [OF h i]
    by (simp add: Let_def example_scaling_data_def)
qed

text \<open>
  Claim C5. On a catalog built with an exclusion set, \<^verbatim>\<open>get_params\<close> of a name that
  is excluded or is not a name of the source raises \<^verbatim>\<open>KeyError\<close>; of a name in
  \<^verbatim>\<open>feature_list\<close> it returns the triad stored in \<^verbatim>\<open>scaling_dict\<close> for the name,
  which is the triad of the source record of this name (of the last one, should the name
  occur twice).
\<close>
theorem get_params_catalog:
  "let c = fst (DataScaler_init ds ign) in
     ((f \<in> set ign \<or> f \<notin> set (map row_name ds)) \<longrightarrow> get_params c f = Inl (KeyError f)) \<and>
     (f \<in> set (feature_list c) \<longrightarrow>
        map_of (scaling_dict c) f = Some (row_params (last (filter (\<lambda>r. row_name r = f) ds))) \<and>
        get_params c f = Inr (row_params (last (filter (\<lambda>r. row_name r = f) ds))))"
proof -
  have a: "f \<in> set ign \<or> f \<notin> set (map row_name ds) \<Longrightarrow> map_of (store_rows [] (kept ign ds)) f = None"
    by (auto simp: map_of_store_rows names_kept)
  have b: "map_of (store_rows [] (kept ign ds)) f = Some (row_params (last (filter (\<lambda>r. row_name r = f) ds)))"
    if "f \<in> set (map row_name (kept ign ds))"
  proof -
    from that have "f \<notin> set ign" by (auto simp: kept_def)
    with that show ?thesis by (simp add: map_of_store_rows filter_name_kept)
  qed
  show ?thesis
    unfolding DataScaler_init_eq Let_def
    using a b by (simp add: get_params_def feature_list_def scaling_dict_def feature_list_kept)
qed

theorem get_params_catalog_witness:
  "let c = fst (DataScaler_init (example_scaling_data Bytes) [Bytes ''eventweight'']) in
     Bytes ''eventweight'' \<in> set [Bytes ''eventweight''] \<and> get_params c (Bytes ''eventweight'') = Inl (KeyError (Bytes ''eventweight'')) \<and>
     Bytes ''phi'' \<notin> set (map row_name (example_scaling_data Bytes)) \<and> get_params c (Bytes ''phi'') = Inl (KeyError (Bytes ''phi'')) \<and>
     Bytes ''pt'' \<in> set (feature_list c) \<and>
     get_params c (Bytes ''pt'') = Inr \<lparr>p_mean = 50, p_scale = 10, p_var = 100\<rparr>"
  using get_params_catalog [where f = "Bytes ''eventweight''" and ign = "[Bytes ''eventweight'']" and ds = "example_scaling_data Bytes"]
    get_params_catalog [where f = "Bytes ''phi''" and ign = "[Bytes ''eventweight'']" and ds = "example_scaling_data Bytes"]
    get_params_catalog [where f = "Bytes ''pt''" and ign = "[Bytes ''eventweight'']" and ds = "example_scaling_data Bytes"]
  by (simp add: Let_def example_scaling_data_def row_params_def example_catalog [unfolded example_scaling_data_def] feature_list_def)

section \<open>A second load\<close>

lemma load_rows_array:
  "self_mean self = NdArray m \<Longrightarrow> kept ign ds \<noteq> [] \<Longrightarrow>
   load_rows self ds ign =
     (self\<lparr>self_scaling_dict :=
        AList.update (row_name (hd (kept ign ds))) (row_params (hd (kept ign ds))) (self_scaling_dict self)\<rparr>,
      Some (AttributeError ''append''))"
  by (induction ds) (auto simp: kept_def Let_def)

text \<open>
  Claim C9. On a catalog that the constructor has loaded, a second \<^verbatim>\<open>load\<close> over a
  source with at least one record that is not excluded raises \<^verbatim>\<open>AttributeError\<close> for
  \<^verbatim>\<open>append\<close>. The object it leaves has \<^verbatim>\<open>raw_feature_list\<close> and
  \<^verbatim>\<open>feature_list\<close> of the new source, the three arrays of the first load, and the
  first retained record of the new source stored in \<^verbatim>\<open>scaling_dict\<close>.
\<close>
theorem second_load_fails:
  assumes "x \<in> set ds" and "row_name x \<notin> set ign"
  shows "let c = fst (DataScaler_init ds0 ign0); r = load c ds ign in
     snd r = Some (AttributeError ''append'') \<and>
     raw_feature_list (fst r) = map row_name ds \<and>
     feature_list (fst r) = filter (\<lambda>n. n \<notin> set ign) (map row_name ds) \<and>
     mean (fst r) = mean c \<and> scale (fst r) = scale c \<and> var (fst r) = var c \<and>
     scaling_dict (fst r) =
       AList.update (row_name (hd (kept ign ds))) (row_params (hd (kept ign ds))) (scaling_dict c)"
proof -
  have k: "kept ign ds \<noteq> []"
    using assms by (auto simp: kept_def filter_empty_conv)
  define c where "c = fst (DataScaler_init ds0 ign0)"
  define c2 where "c2 = c\<lparr>self_raw_feature_list := map row_name ds,
    self_feature_list := filter (\<lambda>n. n \<notin> set ign) (map row_name ds)\<rparr>"
  have m: "self_mean c2 = NdArray (map row_mean (kept ign0 ds0))"
    by (simp add: c2_def c_def DataScaler_init_eq)
  have "load c ds ign =
      (c2\<lparr>self_scaling_dict :=
         AList.update (row_name (hd (kept ign ds))) (row_params (hd (kept ign ds))) (self_scaling_dict c2)\<rparr>,
       Some (AttributeError ''append''))"
    by (simp add: load_def load_rows_array [OF m k] c2_def [symmetric])
  then show ?thesis
    unfolding c_def [symmetric] Let_def
    by (simp add: c2_def raw_feature_list_def feature_list_def mean_def scale_def var_def scaling_dict_def)
qed

theorem second_load_fails_witness:
  "\<lparr>row_name = Bytes ''pt'', row_mean = 50, row_scale = 10, row_var = 100\<rparr> \<in> set (example_scaling_data Bytes) \<and>
   Bytes ''pt'' \<notin> set [Bytes ''eventweight''] \<and>
   (let c = fst (DataScaler_init (example_scaling_data Bytes) [Bytes ''eventweight'']);
        r = load c (example_scaling_data Bytes) [Bytes ''eventweight''] in
      snd r = Some (AttributeError ''append'') \<and>
      raw_feature_list (fst r) = [Bytes ''pt'', Bytes ''eta'', Bytes ''eventweight''] \<and>
      feature_list (fst r) = [Bytes ''pt'', Bytes ''eta''] \<and> mean (fst r) = NdArray [50, 0])"
proof -
  have h: "\<lparr>row_name = Bytes ''pt'', row_mean = 50, row_scale = 10, row_var = 100\<rparr> \<in> set (example_scaling_data Bytes)"
    by (simp add: example_scaling_data_def)
  have i: "row_name \<lparr>row_name = Bytes ''pt'', row_mean = 50::real, row_scale = 10::real, row_var = 100::real\<rparr> \<notin> set [Bytes ''eventweight'']"
    by simp
  show ?thesis
    using h second_load_fails [OF h i, of "example_scaling_data Bytes" "[Bytes ''eventweight'']"]
    by (simp add: Let_def example_catalog mean_def) (simp add: example_scaling_data_def)
qed

section \<open>Sample\<close>

lemma call_self: "snd (call s m) = s"
  by (cases m) simp_all

lemma calls_self: "calls s ms = s"
  by (induction ms) (simp_all add: call_self)

text \<open>
  Claim C4. Constructing a \<^verbatim>\<open>Sample\<close> from a matrix whose dtype is not float64
  raises the \<^verbatim>\<open>Exception\<close> that shows the dtype found, whatever the class label is;
  from a float64 matrix and a negative class label it raises the \<^verbatim>\<open>ValueError\<close> whose
  message has the sample's name. In both cases the result is the exception, not an object.
\<close>
theorem sample_validation_order:
  "(dtype a \<noteq> Plain Float64 \<longrightarrow> Sample_init n l (Some a) = Inl (Exception (dtype a))) \<and>
   (dtype a = Plain Float64 \<and> l < 0 \<longrightarrow>
      Sample_init n l (Some a) = Inl (ValueError (''ERROR Sample (='' @ n @ '')class label is not set (<0)'')))"
  by (simp add: Sample_init_def)

theorem sample_validation_order_witness:
  "dtype \<lparr>dtype = Plain Float32, shape = [1, 1], buf = [0::real]\<rparr> \<noteq> Plain Float64 \<and>
   Sample_init ''signal'' (- 1) (Some \<lparr>dtype = Plain Float32, shape = [1, 1], buf = [0::real]\<rparr>) =
     Inl (Exception (Plain Float32)) \<and>
   dtype \<lparr>dtype = Plain Float64, shape = [1, 1], buf = [0::real]\<rparr> = Plain Float64 \<and> (- 1 :: int) < 0 \<and>
   Sample_init ''signal'' (- 1) (Some \<lparr>dtype = Plain Float64, shape = [1, 1], buf = [0::real]\<rparr>) =
     Inl (ValueError ''ERROR Sample (=signal)class label is not set (<0)'')"
  using sample_validation_order [of "\<lparr>dtype = Plain Float32, shape = [1, 1], buf = [0::real]\<rparr>" "''signal''" "- 1"]
    sample_validation_order [of "\<lparr>dtype = Plain Float64, shape = [1, 1], buf = [0::real]\<rparr>" "''signal''" "- 1"]
  by simp

text \<open>
  Claim C8. Constructing a \<^verbatim>\<open>Sample\<close> from a float64 matrix and a class label that
  is not negative gives an object whose \<^verbatim>\<open>name()\<close>, \<^verbatim>\<open>class_label()\<close> and
  \<^verbatim>\<open>data()\<close> are the constructor's arguments, and every sequence of method calls leaves
  the object, and so what the three accessors return, as it was.
\<close>
theorem sample_accessors:
  assumes "dtype a = Plain Float64" and "0 \<le> l"
  shows "\<exists>s. Sample_init n l (Some a) = Inr s \<and> name s = n \<and> class_label s = l \<and> data s = a \<and>
     (\<forall>ms. calls s ms = s \<and> name (calls s ms) = n \<and> class_label (calls s ms) = l \<and> data (calls s ms) = a)"
  using assms by (simp add: Sample_init_def name_def class_label_def data_def calls_self)

theorem sample_accessors_witness:
  "dtype \<lparr>dtype = Plain Float64, shape = [1, 2], buf = [3, 4::real]\<rparr> = Plain Float64 \<and> (0::int) \<le> 1 \<and>
   (\<exists>s. Sample_init ''signal'' 1 (Some \<lparr>dtype = Plain Float64, shape = [1, 2], buf = [3, 4::real]\<rparr>) = Inr s \<and>
      name s = ''signal'' \<and> class_label s = 1 \<and>
      data s = \<lparr>dtype = Plain Float64, shape = [1, 2], buf = [3, 4]\<rparr> \<and>
      data (calls s [Call_data, Call_name, Call_class_label]) = \<lparr>dtype = Plain Float64, shape = [1, 2], buf = [3, 4]\<rparr>)"
proof -
  have h: "dtype \<lparr>dtype = Plain Float64, shape = [1, 2], buf = [3, 4::real]\<rparr> = Plain Float64"
    by simp
  have i: "(0::int) \<le> 1"
    by simp
  from sample_accessors [OF h i, of "''signal''"] h i show ?thesis
    by blast
qed

text \<open>
  Claim C10. Constructing a \<^verbatim>\<open>Sample\<close> without a matrix (\<^verbatim>\<open>input_data\<close> is
  \<^verbatim>\<open>None\<close>) raises \<^verbatim>\<open>AttributeError\<close> for \<^verbatim>\<open>dtype\<close>, for every name and every
  class label: neither the \<^verbatim>\<open>Exception\<close> of the dtype check nor the \<^verbatim>\<open>ValueError\<close>
  of the label check.
\<close>
theorem sample_without_data:
  "Sample_init n l None = Inl (AttributeError ''dtype'')"
  by (simp add: Sample_init_def)

section \<open>floatify\<close>

lemma itemsize_float_fields:
  "sum_list (map (\<lambda>f. scalar_size (snd f)) (map (\<lambda>name. (name, Float64)) fl)) = 8 * length fl"
  by (induction fl) simp_all

lemma view_float_fields:
  assumes "dtype a = Struct (map (\<lambda>name. (name, Float64)) fl)" and "shape a = [n]"
  shows "view_float a = Inr (a\<lparr>dtype := Plain Float64, shape := [n * length fl]\<rparr>)"
proof -
  have i: "itemsize (dtype a) = 8 * length fl"
    using assms(1) itemsize_float_fields [of fl] by simp
  consider "length fl = 0" | "length fl = 1" | "1 < length fl"
    by linarith
  then show ?thesis
  proof cases
    case 1
    then show ?thesis using assms(2) by (simp add: view_float_def i)
  next
    case 2
    then show ?thesis using assms(2) by (simp add: view_float_def i)
  next
    case 3
    then show ?thesis using assms(2) by (simp add: view_float_def i)
  qed
qed

lemma reshape_rows:
  assumes "shape v = [n * k]" and "0 < n"
  shows "reshape v [int n, - 1] = Inr (v\<lparr>shape := [n, k]\<rparr>)"
  using assms by (simp add: reshape_def)

lemma floatify_rows:
  assumes "dtype a = Struct fs" and "map fst fs = fl" and "distinct fl" and "shape a = [n]" and "0 < n"
  shows "floatify to_float a fl =
    Inr \<lparr>dtype = Plain Float64, shape = [n, length fl], buf = map to_float (buf a)\<rparr>"
proof -
  let ?ftype = "map (\<lambda>name. (name, Float64)) fl"
  have l: "length fs = length fl"
    using assms(2) by (metis length_map)
  have "np_dtype ?ftype = Inr (Struct ?ftype)"
    using assms(3) by (simp add: np_dtype_def comp_def)
  then have a: "astype to_float a ?ftype = Inr \<lparr>dtype = Struct ?ftype, shape = [n], buf = map to_float (buf a)\<rparr>"
    using assms(1,4) l by (simp add: astype_def)
  have v: "view_float \<lparr>dtype = Struct ?ftype, shape = [n], buf = map to_float (buf a)\<rparr> =
      Inr \<lparr>dtype = Plain Float64, shape = [n * length fl], buf = map to_float (buf a)\<rparr>"
    by (subst view_float_fields [where fl = fl and n = n]) simp_all
  have r: "reshape \<lparr>dtype = Plain Float64, shape = [n * length fl], buf = map to_float (buf a)\<rparr> [int n, - 1] =
      Inr \<lparr>dtype = Plain Float64, shape = [n, length fl], buf = map to_float (buf a)\<rparr>"
    by (subst reshape_rows [where n = n and k = "length fl"]) (simp_all add: assms(5))
  show ?thesis
    by (simp add: floatify_def a v assms(4) r)
qed

lemma field_index_nth: "distinct fl \<Longrightarrow> j < length fl \<Longrightarrow> field_index fl (fl ! j) = j"
proof (induction fl arbitrary: j)
  case Nil
  then show ?case by simp
next
  case (Cons f fl)
  then show ?case by (cases j) auto
qed

lemma cell_bound: "i < n \<Longrightarrow> j < k \<Longrightarrow> i * k + j < n * (k::nat)"
proof -
  assume a: "i < n" and b: "j < k"
  have "i * k + j < i * k + k" using b by simp
  also have "\<dots> = Suc i * k" by simp
  also have "\<dots> \<le> n * k" using a by (intro mult_le_mono1) simp
  finally show ?thesis .
qed

text \<open>
  Claim C3, for at least one row. \<^verbatim>\<open>floatify\<close> of a structured array with \<open>n \<ge> 1\<close>
  rows whose fields are the \<open>k\<close> names of \<^verbatim>\<open>feature_list\<close>, in this order, returns a
  float64 matrix of shape \<open>(n, k)\<close> whose column \<open>j\<close> is the field named
  \<^verbatim>\<open>feature_list[j]\<close>, cast to float64, for every \<open>j < k\<close>. The result is a
  function of the array, the names and the cast alone.
\<close>
theorem floatify_matrix:
  assumes "dtype a = Struct fs" and "map fst fs = fl" and "distinct fl"
    and "shape a = [n]" and "length (buf a) = n * length fl" and "0 < n"
  shows "\<exists>m. floatify to_float a fl = Inr m \<and> dtype m = Plain Float64 \<and> shape m = [n, length fl] \<and>
           length (buf m) = n * length fl \<and>
           (\<forall>j < length fl. column m j = map to_float (field a (fl ! j)))"
proof -
  let ?m = "\<lparr>dtype = Plain Float64, shape = [n, length fl], buf = map to_float (buf a)\<rparr>"
  have f: "floatify to_float a fl = Inr ?m"
    using assms(1,2,3,4,6) by (rule floatify_rows)
  have c: "column ?m j = map to_float (field a (fl ! j))" if j: "j < length fl" for j
  proof -
    have w: "width (dtype a) = length fl"
      using assms(1,2) by (metis length_map width.simps(2))
    have nm: "names_of (dtype a) = fl"
      using assms(1,2) by simp
    have "buf ?m ! (i * length fl + j) = to_float (item_at a i ! field_index fl (fl ! j))" if i: "i < n" for i
    proof -
      have b: "i * length fl + j < length (buf a)"
        using cell_bound [OF i j] assms(5) by simp
      then show ?thesis
        using j by (simp add: item_at_def w field_index_nth [OF assms(3) j])
    qed
    then show ?thesis
      by (simp add: column_def field_def assms(4) nm)
  qed
  show ?thesis
    using f c assms(5) by simp
qed

theorem floatify_matrix_witness:
  "dtype \<lparr>dtype = Struct [(''pt'', Float32), (''eta'', Int32)], shape = [3], buf = [1, 2, 3, 4, 5, 6::int]\<rparr> =
     Struct [(''pt'', Float32), (''eta'', Int32)] \<and>
   map fst [(''pt'', Float32), (''eta'', Int32)] = [''pt'', ''eta''] \<and> distinct [''pt'', ''eta''] \<and>
   shape \<lparr>dtype = Struct [(''pt'', Float32), (''eta'', Int32)], shape = [3], buf = [1, 2, 3, 4, 5, 6::int]\<rparr> = [3] \<and>
   length (buf \<lparr>dtype = Struct [(''pt'', Float32), (''eta'', Int32)], shape = [3], buf = [1, 2, 3, 4, 5, 6::int]\<rparr>) =
     3 * length [''pt'', ''eta''] \<and> (0::nat) < 3 \<and>
   (\<exists>m. floatify real_of_int
          \<lparr>dtype = Struct [(''pt'', Float32), (''eta'', Int32)], shape = [3], buf = [1, 2, 3, 4, 5, 6::int]\<rparr>
          [''pt'', ''eta''] = Inr m \<and>
        shape m = [3, 2] \<and> column m 1 = [2, 4, 6])"
proof -
  let ?a = "\<lparr>dtype = Struct [(''pt'', Float32), (''eta'', Int32)], shape = [3], buf = [1, 2, 3, 4, 5, 6::int]\<rparr>"
  have h1: "dtype ?a = Struct [(''pt'', Float32), (''eta'', Int32)]" by simp
  have h2: "map fst [(''pt'', Float32), (''eta'', Int32)] = [''pt'', ''eta'']" by simp
  have h3: "distinct [''pt'', ''eta'']" by simp
  have h4: "shape ?a = [3]" by simp
  have h5: "length (buf ?a) = 3 * length [''pt'', ''eta'']" by simp
  have h6: "(0::nat) < 3" by simp
  have e: "map real_of_int (field ?a ([''pt'', ''eta''] ! 1)) = [2, 4, 6]"
    by (simp add: field_def item_at_def upt_rec)
  from floatify_matrix [OF h1 h2 h3 h4 h5 h6, of real_of_int]
  obtain m where m: "floatify real_of_int ?a [''pt'', ''eta''] = Inr m" "shape m = [3, 2]"
    "\<forall>j < length [''pt'', ''eta'']. column m j = map real_of_int (field ?a ([''pt'', ''eta''] ! j))"
    by auto
  from m(3) have "column m 1 = map real_of_int (field ?a ([''pt'', ''eta''] ! 1))"
    by simp
  with e m(1,2) have "\<exists>m. floatify real_of_int ?a [''pt'', ''eta''] = Inr m \<and> shape m = [3, 2] \<and> column m 1 = [2, 4, 6]"
    by auto
  with h1 h2 h3 h4 h5 h6 show ?thesis
    by blast
qed

text \<open>
  Claim C3 as stated fails for \<open>n = 0\<close>: on a structured array without rows the
  \<^verbatim>\<open>-1\<close> of \<^verbatim>\<open>reshape\<close> cannot be inferred (the other dimension is \<open>0\<close>) and
  \<^verbatim>\<open>floatify\<close> raises \<^verbatim>\<open>ValueError\<close> where the claim has a matrix of shape
  \<open>(0, 2)\<close>.
\<close>
theorem floatify_empty_counterexample:
  "floatify real_of_int \<lparr>dtype = Struct [(''pt'', Float32), (''eta'', Float32)], shape = [0], buf = []\<rparr>
     [''pt'', ''eta''] = Inl (ValueError ''cannot reshape array'')"
  by (simp add: floatify_def astype_def np_dtype_def view_float_def reshape_def)


section \<open>load_input_file\<close>










end
